theory Spec2Isabelle
  imports Main "HOL-Library.Sublist"
begin

section \<open>Values of the runtime\<close>

text \<open>
  The agent registers seven tools on one server; six of them call a vendor over HTTP
  (the postcard tool is a stub that returns a fixed text). This theory embeds the
  handlers of those six tools and the two header builders, and proves what they return
  and which requests they issue.

  The handlers read fields out of decoded response bodies, test them for truthiness and
  interpolate them into messages. A decoded body is a \<open>json\<close> value; the result of
  reading a property is a \<open>json option\<close>, where \<open>None\<close> is the runtime's \<open>undefined\<close>.
  An object is the list of its own properties, and a name listed twice reads as its
  first entry. Numbers are the integral ones of magnitude below \<open>10^21\<close>, which the
  runtime prints as decimal numerals (a number is falsy exactly when it is zero);
  fractions are outside the model. Strings are byte strings.
\<close>

datatype json =
    JNull
  | JBool bool
  | JNum int
  | JStr string
  | JArr "json list"
  | JObj "(string \<times> json) list"

text \<open>Truthiness, as \<open>if (v)\<close>, \<open>!v\<close> and \<open>v || d\<close> read a value.\<close>

fun truthy :: "json option \<Rightarrow> bool" where
  "truthy None = False"
| "truthy (Some JNull) = False"
| "truthy (Some (JBool b)) = b"
| "truthy (Some (JNum n)) = (n \<noteq> 0)"
| "truthy (Some (JStr s)) = (s \<noteq> [])"
| "truthy (Some (JArr xs)) = True"
| "truthy (Some (JObj kvs)) = True"

text \<open>
  Optional chaining \<open>v?.k\<close>: \<open>undefined\<close> on \<open>undefined\<close> and \<open>null\<close>, the own property on
  an object, and \<open>undefined\<close> on every other value (none of the property names the tools
  read is a property of a boolean, number, string or array).
\<close>

fun opt_get :: "json option \<Rightarrow> string \<Rightarrow> json option" where
  "opt_get (Some (JObj kvs)) k = map_of kvs k"
| "opt_get v k = None"

text \<open>Decimal numerals, as a template literal prints a number.\<close>

definition digit_char :: "nat \<Rightarrow> char" where
  "digit_char d = ''0123456789'' ! (d mod 10)"

fun show_nat :: "nat \<Rightarrow> string" where
  "show_nat n = (if n < 10 then [digit_char n] else show_nat (n div 10) @ [digit_char (n mod 10)])"

declare show_nat.simps [simp del]

definition show_int :: "int \<Rightarrow> string" where
  "show_int i = (if i < 0 then CHR ''-'' # show_nat (nat (- i)) else show_nat (nat i))"

fun join_with :: "string \<Rightarrow> string list \<Rightarrow> string" where
  "join_with sep [] = []"
| "join_with sep [x] = x"
| "join_with sep (x # y # ys) = x @ sep @ join_with sep (y # ys)"

text \<open>
  String conversion of a value inside a template literal \<open>${v}\<close>. An array prints its
  elements separated by commas, with \<open>null\<close> elements printed empty. An object prints as
  \<open>[object Object]\<close>; a decoded object with a member named \<open>toString\<close>, whose
  conversion the runtime refuses with a TypeError, is outside the model.
\<close>

fun json_to_string :: "json \<Rightarrow> string" where
  "json_to_string JNull = ''null''"
| "json_to_string (JBool b) = (if b then ''true'' else ''false'')"
| "json_to_string (JNum n) = show_int n"
| "json_to_string (JStr s) = s"
| "json_to_string (JArr xs) =
     join_with '','' (map (\<lambda>x. if x = JNull then [] else json_to_string x) xs)"
| "json_to_string (JObj kvs) = ''[object Object]''"

fun js_to_string :: "json option \<Rightarrow> string" where
  "js_to_string None = ''undefined''"
| "js_to_string (Some v) = json_to_string v"

section \<open>Requests, responses and the network\<close>

datatype body =
    FormDataBody "(string \<times> string) list"
  | TextBody string
  | JsonBody json

record request =
  req_url :: string
  req_method :: string
  req_headers :: "(string \<times> string) list"
  req_body :: "body option"

text \<open>
  A response carries its status and what reading its body as text and as decoded JSON
  gives: \<open>Inl msg\<close> is a read that rejects with an error of that message.
\<close>

record response =
  resp_status :: nat
  resp_text :: "string + string"
  resp_json :: "string + json"

definition resp_ok :: "response \<Rightarrow> bool" where
  "resp_ok r = (200 \<le> resp_status r \<and> resp_status r < 300)"

datatype fetch_outcome = Rejected string | Resolved response

text \<open>
  The network answers a request given the requests issued before it. A computation
  threads the log of issued requests and may raise an error, carried by its message:
  \<open>Inl msg\<close> is a thrown \<open>Error(msg)\<close>.
\<close>

type_synonym network = "request list \<Rightarrow> request \<Rightarrow> fetch_outcome"

type_synonym 'a io = "request list \<Rightarrow> (string + 'a) \<times> request list"

definition io_return :: "'a \<Rightarrow> 'a io" where
  "io_return x log = (Inr x, log)"

definition io_throw :: "string \<Rightarrow> 'a io" where
  "io_throw e log = (Inl e, log)"

definition io_bind :: "'a io \<Rightarrow> ('a \<Rightarrow> 'b io) \<Rightarrow> 'b io" where
  "io_bind m f log = (case m log of (Inl e, log') \<Rightarrow> (Inl e, log') | (Inr x, log') \<Rightarrow> f x log')"

definition io_catch :: "'a io \<Rightarrow> (string \<Rightarrow> 'a io) \<Rightarrow> 'a io" where
  "io_catch m h log = (case m log of (Inl e, log') \<Rightarrow> h e log' | (Inr x, log') \<Rightarrow> (Inr x, log'))"

definition io_of :: "string + 'a \<Rightarrow> 'a io" where
  "io_of r log = (r, log)"

definition fetch :: "network \<Rightarrow> request \<Rightarrow> response io" where
  "fetch net req log =
     (case net log req of
        Rejected e \<Rightarrow> (Inl e, log @ [req])
      | Resolved r \<Rightarrow> (Inr r, log @ [req]))"

text \<open>Object spread with one more key: \<open>{ ...headers, k: v }\<close>.\<close>

fun spread_with :: "(string \<times> string) list \<Rightarrow> string \<Rightarrow> string \<Rightarrow> (string \<times> string) list" where
  "spread_with [] k v = [(k, v)]"
| "spread_with (p # ps) k v = (if fst p = k then (k, v) # ps else p # spread_with ps k v)"

text \<open>
  \<open>URLSearchParams.toString()\<close>: the form-urlencoded serialisation of a list of pairs.
  A space becomes \<open>+\<close>, the bytes of \<open>urlencoded_safe\<close> stand for themselves, every other
  byte is \<open>%XX\<close>.
\<close>

definition urlencoded_safe :: string where
  "urlencoded_safe =
     ''*-._0123456789ABCDEFGHIJKLMNOPQRSTUVWXYZabcdefghijklmnopqrstuvwxyz''"

definition hex_digit :: "nat \<Rightarrow> char" where
  "hex_digit d = ''0123456789ABCDEF'' ! (d mod 16)"

definition urlencode_byte :: "char \<Rightarrow> string" where
  "urlencode_byte c =
     (if c = CHR '' '' then ''+''
      else if c \<in> set urlencoded_safe then [c]
      else [CHR ''%'', hex_digit (of_char c div 16), hex_digit (of_char c mod 16)])"

definition urlencode :: "string \<Rightarrow> string" where
  "urlencode s = concat (map urlencode_byte s)"

definition URLSearchParams_toString :: "(string \<times> string) list \<Rightarrow> string" where
  "URLSearchParams_toString ps =
     join_with ''&'' (map (\<lambda>(k, v). urlencode k @ ''='' @ urlencode v) ps)"

section \<open>The agent and what a tool returns\<close>

record Env =
  GOOGLE_API_KEY :: "string option"
  EASYPOST_API_KEY :: "string option"
  EASYPOST_CARRIER_ACCOUNT_ID :: "string option"

record MyMCP =
  env :: Env
  c2mAuthHeaderValue :: "string option"

text \<open>Truthiness of an optional string: \<open>undefined\<close> and the empty string are falsy.\<close>

fun str_truthy :: "string option \<Rightarrow> bool" where
  "str_truthy None = False"
| "str_truthy (Some s) = (s \<noteq> [])"

record AddressValidationResult =
  is_valid :: bool
  corrected_address :: json
  original_address :: json
  messages :: "json option list"

text \<open>
  A tool returns one content item: a text item, whose \<open>text\<close> is whatever value the
  handler put there, or a json item. A handler that throws gives \<open>Inl msg\<close>.
\<close>

datatype content = TextContent "json option" | JsonContent AddressValidationResult

definition text_item :: "string \<Rightarrow> content" where
  "text_item s = TextContent (Some (JStr s))"

section \<open>Authentication header builders\<close>

text \<open>The headers the two builders give for a credential that is present.\<close>

definition click2mail_headers :: "string \<Rightarrow> (string \<times> string) list" where
  "click2mail_headers c = [(''Authorization'', ''Basic '' @ c), (''Accept'', ''application/json'')]"

definition easypost_headers :: "string \<Rightarrow> (string \<times> string) list" where
  "easypost_headers k = [(''Authorization'', ''Bearer '' @ k), (''Content-Type'', ''application/json'')]"

definition getClick2mailBasicAuthHeader :: "string option \<Rightarrow> string + (string \<times> string) list" where
  "getClick2mailBasicAuthHeader base64Credentials =
     (case base64Credentials of
        None \<Rightarrow> Inl ''Click2mail basic auth credentials are required.''
      | Some c \<Rightarrow>
          if c = [] then Inl ''Click2mail basic auth credentials are required.''
          else Inr (click2mail_headers c))"

definition getEasyPostAuthHeader :: "Env \<Rightarrow> string + (string \<times> string) list" where
  "getEasyPostAuthHeader e =
     (case EASYPOST_API_KEY e of
        None \<Rightarrow> Inl ''Missing EasyPost API key in environment''
      | Some k \<Rightarrow>
          if k = [] then Inl ''Missing EasyPost API key in environment''
          else Inr (easypost_headers k))"

text \<open>The error every single-request tool throws on a non-success status.\<close>

definition http_error :: "response \<Rightarrow> string \<Rightarrow> string" where
  "http_error response errorBody =
     ''HTTP error! status: '' @ show_nat (resp_status response) @ '', body: '' @ errorBody"

section \<open>Single-request tools\<close>

text \<open>
  Each handler is modelled with its guard, its one request and its reading of the
  response, in the order of the source; what the handlers write to the console is left
  out. The handlers start from the log of requests issued so far.
\<close>

record label_input =
  to_address_name :: string
  to_address_street1 :: string
  to_address_city :: string
  to_address_state :: string
  to_address_zip :: string
  to_address_country :: string
  from_address_name :: string
  from_address_street1 :: string
  from_address_city :: string
  from_address_state :: string
  from_address_zip :: string
  from_address_country :: string
  parcel_weight :: string

text \<open>
  The shipment payload. \<open>parseFloat\<close> is the runtime's; it is a parameter here, giving the
  value the serialised payload holds for the weight. The carrier accounts are present
  only when the account id is configured.
\<close>

definition shipment_payload :: "(string \<Rightarrow> json) \<Rightarrow> Env \<Rightarrow> label_input \<Rightarrow> json" where
  "shipment_payload parseFloat e input =
     JObj [(''shipment'', JObj (
        [(''to_address'', JObj [
            (''name'', JStr (to_address_name input)),
            (''street1'', JStr (to_address_street1 input)),
            (''city'', JStr (to_address_city input)),
            (''state'', JStr (to_address_state input)),
            (''zip'', JStr (to_address_zip input)),
            (''country'', JStr (to_address_country input))]),
         (''from_address'', JObj [
            (''name'', JStr (from_address_name input)),
            (''street1'', JStr (from_address_street1 input)),
            (''city'', JStr (from_address_city input)),
            (''state'', JStr (from_address_state input)),
            (''zip'', JStr (from_address_zip input)),
            (''country'', JStr (from_address_country input))]),
         (''parcel'', JObj [(''weight'', parseFloat (parcel_weight input))]),
         (''service'', JStr ''Priority'')]
        @ (case EASYPOST_CARRIER_ACCOUNT_ID e of
             None \<Rightarrow> []
           | Some a \<Rightarrow> if a = [] then [] else [(''carrier_accounts'', JArr [JStr a])])))]"

definition shipmentRequest :: "(string \<times> string) list \<Rightarrow> json \<Rightarrow> request" where
  "shipmentRequest headers payload =
     \<lparr>req_url = ''https://api.easypost.com/v2/shipments'',
      req_method = ''POST'',
      req_headers = headers,
      req_body = Some (JsonBody payload)\<rparr>"

definition create_shipping_label ::
    "(string \<Rightarrow> json) \<Rightarrow> MyMCP \<Rightarrow> network \<Rightarrow> label_input \<Rightarrow> content io" where
  "create_shipping_label parseFloat agent net input =
     (case getEasyPostAuthHeader (env agent) of
        Inl e \<Rightarrow> io_throw e
      | Inr headers \<Rightarrow>
          io_catch
            (io_bind
               (fetch net (shipmentRequest headers (shipment_payload parseFloat (env agent) input)))
               (\<lambda>response.
                  if \<not> resp_ok response then
                    io_bind (io_of (resp_text response))
                      (\<lambda>errorBody. io_throw (http_error response errorBody))
                  else
                    io_bind (io_of (resp_json response))
                      (\<lambda>data.
                         let labelUrl = opt_get (opt_get (Some data) ''postage_label'') ''label_url''
                         in if truthy labelUrl then io_return (TextContent labelUrl)
                            else io_return (text_item ''Label URL not found in response.''))))
            (\<lambda>msg. io_return (text_item (''Error creating shipping label: '' @ msg))))"

record job_input =
  jobid :: string

definition proofRequest :: "(string \<times> string) list \<Rightarrow> job_input \<Rightarrow> request" where
  "proofRequest headers input =
     \<lparr>req_url = ''https://stage-rest.click2mail.com/molpro/jobs/'' @ jobid input @ ''/proof'',
      req_method = ''POST'',
      req_headers = headers,
      req_body = None\<rparr>"

definition view_proof :: "MyMCP \<Rightarrow> network \<Rightarrow> job_input \<Rightarrow> content io" where
  "view_proof agent net input =
     (if \<not> str_truthy (c2mAuthHeaderValue agent) then
        io_return (text_item ''Click2mail basic auth credentials are not available.'')
      else
        case getClick2mailBasicAuthHeader (c2mAuthHeaderValue agent) of
          Inl e \<Rightarrow> io_throw e
        | Inr headers \<Rightarrow>
            io_catch
              (io_bind
                 (fetch net (proofRequest headers input))
                 (\<lambda>response.
                    if \<not> resp_ok response then
                      io_bind (io_of (resp_text response))
                        (\<lambda>errorBody. io_throw (http_error response errorBody))
                    else
                      io_bind (io_of (resp_json response))
                        (\<lambda>data.
                           let statusUrl = opt_get (Some data) ''statusUrl''
                           in if truthy statusUrl then io_return (TextContent statusUrl)
                              else io_return (text_item ''Status URL not found in response.''))))
              (\<lambda>msg. io_return (text_item (''Error viewing proof: '' @ msg))))"

definition statusRequest :: "(string \<times> string) list \<Rightarrow> job_input \<Rightarrow> request" where
  "statusRequest headers input =
     \<lparr>req_url = ''https://stage-rest.click2mail.com/molpro/jobs/'' @ jobid input,
      req_method = ''GET'',
      req_headers = headers,
      req_body = None\<rparr>"

definition job_status :: "MyMCP \<Rightarrow> network \<Rightarrow> job_input \<Rightarrow> content io" where
  "job_status agent net input =
     (if \<not> str_truthy (c2mAuthHeaderValue agent) then
        io_return (text_item ''Click2mail basic auth credentials are not available.'')
      else
        case getClick2mailBasicAuthHeader (c2mAuthHeaderValue agent) of
          Inl e \<Rightarrow> io_throw e
        | Inr headers \<Rightarrow>
            io_catch
              (io_bind
                 (fetch net (statusRequest headers input))
                 (\<lambda>response.
                    if \<not> resp_ok response then
                      io_bind (io_of (resp_text response))
                        (\<lambda>errorBody. io_throw (http_error response errorBody))
                    else
                      io_bind (io_of (resp_json response))
                        (\<lambda>data.
                           let description = opt_get (Some data) ''description''
                           in if truthy description then io_return (TextContent description)
                              else io_return (text_item ''Job description not found in response.''))))
              (\<lambda>msg. io_return (text_item (''Error getting job status: '' @ msg))))"

definition creditRequest :: "(string \<times> string) list \<Rightarrow> request" where
  "creditRequest headers =
     \<lparr>req_url = ''https://stage-rest.click2mail.com/molpro/credit'',
      req_method = ''GET'',
      req_headers = headers,
      req_body = None\<rparr>"

definition check_balance :: "MyMCP \<Rightarrow> network \<Rightarrow> content io" where
  "check_balance agent net =
     (if \<not> str_truthy (c2mAuthHeaderValue agent) then
        io_return (text_item ''Click2mail basic auth credentials are not available.'')
      else
        case getClick2mailBasicAuthHeader (c2mAuthHeaderValue agent) of
          Inl e \<Rightarrow> io_throw e
        | Inr headers \<Rightarrow>
            io_catch
              (io_bind
                 (fetch net (creditRequest headers))
                 (\<lambda>response.
                    if \<not> resp_ok response then
                      io_bind (io_of (resp_text response))
                        (\<lambda>errorBody. io_throw (http_error response errorBody))
                    else
                      io_bind (io_of (resp_json response))
                        (\<lambda>data.
                           let balance = opt_get (Some data) ''balance''
                           in if balance \<noteq> None then
                                io_return (text_item (''Available balance: '' @ js_to_string balance))
                              else io_return (text_item ''Balance information not found in response.''))))
              (\<lambda>msg. io_return (text_item (''Error checking balance: '' @ msg))))"

section \<open>Address validation\<close>

record validate_input =
  v_address_lines :: string
  v_locality :: string
  v_postal_code :: string
  v_region_code :: string

text \<open>
  \<open>validationMessages?.map((msg) => msg.text) || []\<close>. Reading \<open>text\<close> off a \<open>null\<close>
  element throws, and so does calling \<open>map\<close> on a value that is not an array. The two
  message texts below stand for the engine's own wording, which differs between engines.
\<close>

fun map_msg_text :: "json list \<Rightarrow> string + json option list" where
  "map_msg_text [] = Inr []"
| "map_msg_text (msg # rest) =
     (if msg = JNull then Inl ''Cannot read properties of null (reading 'text')''
      else case map_msg_text rest of
             Inl e \<Rightarrow> Inl e
           | Inr ts \<Rightarrow> Inr (opt_get (Some msg) ''text'' # ts))"

fun validation_messages :: "json option \<Rightarrow> string + json option list" where
  "validation_messages None = Inr []"
| "validation_messages (Some JNull) = Inr []"
| "validation_messages (Some (JArr xs)) = map_msg_text xs"
| "validation_messages (Some v) = Inl ''validationMessages.map is not a function''"

text \<open>\<open>corrected || {}\<close>.\<close>

fun or_empty_object :: "json option \<Rightarrow> json" where
  "or_empty_object None = JObj []"
| "or_empty_object (Some v) = (if truthy (Some v) then v else JObj [])"

definition payload_address :: "validate_input \<Rightarrow> json" where
  "payload_address input =
     JObj [(''addressLines'', JArr [JStr (v_address_lines input)]),
           (''locality'', JStr (v_locality input)),
           (''postalCode'', JStr (v_postal_code input)),
           (''regionCode'', JStr (v_region_code input))]"

definition validate_request :: "string \<Rightarrow> validate_input \<Rightarrow> request" where
  "validate_request key input =
     \<lparr>req_url = ''https://addressvalidation.googleapis.com/v1:validateAddress?key='' @ key,
      req_method = ''POST'',
      req_headers = [(''Content-Type'', ''application/json'')],
      req_body = Some (JsonBody (JObj [(''address'', payload_address input),
                                        (''enableUspsCass'', JBool True)]))\<rparr>"

definition validate_address :: "MyMCP \<Rightarrow> network \<Rightarrow> validate_input \<Rightarrow> content io" where
  "validate_address agent net input =
     (case GOOGLE_API_KEY (env agent) of
        None \<Rightarrow> io_return (text_item ''Google API Key for address validation is not configured.'')
      | Some key \<Rightarrow>
          if key = [] then
            io_return (text_item ''Google API Key for address validation is not configured.'')
          else
            io_catch
              (io_bind (fetch net (validate_request key input))
                 (\<lambda>response.
                    if \<not> resp_ok response then
                      io_bind (io_of (resp_text response))
                        (\<lambda>errorBody.
                           io_throw (''Address validation failed: '' @ http_error response errorBody))
                    else
                      io_bind (io_of (resp_json response))
                        (\<lambda>data.
                           let verdict = opt_get (opt_get (Some data) ''result'') ''verdict'';
                               valid =
                                 (opt_get verdict ''hasUnconfirmedComponents'' = Some (JBool False)
                                  \<and> opt_get verdict ''hasInferredComponents'' = Some (JBool False));
                               corrected = opt_get (opt_get (Some data) ''result'') ''address''
                           in io_bind
                                (io_of (validation_messages
                                   (opt_get (opt_get (Some data) ''result'') ''validationMessages'')))
                                (\<lambda>msgs.
                                   io_return (JsonContent
                                     \<lparr>is_valid = valid,
                                      corrected_address = or_empty_object corrected,
                                      original_address = payload_address input,
                                      messages = msgs\<rparr>)))))
              (\<lambda>msg. io_return (text_item (''Error validating address: '' @ msg))))"

section \<open>The letter pipeline\<close>

record letter_input =
  pdf_file :: string
  letter_type :: string
  name :: string
  address_lines :: string
  locality :: string
  postal_code :: string
  region_code :: string

definition baseUrl :: string where
  "baseUrl = ''https://stage-rest.click2mail.com/molpro/''"

definition nl :: string where
  "nl = [CHR 0x0A]"

text \<open>Step 1: the upload form (the file part itself is not appended by the source).\<close>

definition documentUploadBody :: "letter_input \<Rightarrow> body" where
  "documentUploadBody input =
     FormDataBody [(''documentFormat'', ''pdf''),
                   (''documentClass'', letter_type input),
                   (''documentName'', ''uploaded_letter'')]"

definition docRequest :: "(string \<times> string) list \<Rightarrow> letter_input \<Rightarrow> request" where
  "docRequest headers input =
     \<lparr>req_url = baseUrl @ ''documents'',
      req_method = ''POST'',
      req_headers = headers,
      req_body = Some (documentUploadBody input)\<rparr>"

text \<open>Step 2: the address list, the template literal of the source line by line.\<close>

definition xmlPayload :: "letter_input \<Rightarrow> string" where
  \<open>xmlPayload input =
     ''<?xml version="1.0" encoding="UTF-8"?>'' @ nl @
     ''<addressList>'' @ nl @
     ''    <addressMappingId>1</addressMappingId>'' @ nl @
     ''    <addresses>'' @ nl @
     ''        <address>'' @ nl @
     ''            <Firstname>'' @ name input @ ''</Firstname>'' @ nl @
     ''            <Lastname>'' @ name input @ ''</Lastname>'' @ nl @
     ''            <Address1>'' @ address_lines input @ ''</Address1>'' @ nl @
     ''            <City>'' @ locality input @ ''</City>'' @ nl @
     ''            <State>'' @ region_code input @ ''</State>'' @ nl @
     ''            <Postalcode>'' @ postal_code input @ ''</Postalcode>'' @ nl @
     ''        </address>'' @ nl @
     ''    </addresses>'' @ nl @
     ''</addressList>''\<close>

definition addressListRequest :: "(string \<times> string) list \<Rightarrow> letter_input \<Rightarrow> request" where
  "addressListRequest headers input =
     \<lparr>req_url = baseUrl @ ''addressLists'',
      req_method = ''POST'',
      req_headers = spread_with headers ''Content-Type'' ''application/xml'',
      req_body = Some (TextBody (xmlPayload input))\<rparr>"

text \<open>Step 3: the job form. \<open>append\<close> converts the two ids to strings.\<close>

definition jobFormData :: "letter_input \<Rightarrow> json option \<Rightarrow> json option \<Rightarrow> (string \<times> string) list" where
  "jobFormData input docId listId =
     [(''documentClass'', letter_type input),
      (''layout'', ''Address on First Page''),
      (''productionTime'', ''Next Day''),
      (''envelope'', ''Best Fit''),
      (''color'', ''Full color''),
      (''paperType'', ''White 24#''),
      (''printOption'', ''Printing One side''),
      (''mailClass'', ''First class''),
      (''documentId'', js_to_string docId),
      (''addressId'', js_to_string listId)]"

definition jobRequest ::
    "(string \<times> string) list \<Rightarrow> letter_input \<Rightarrow> json option \<Rightarrow> json option \<Rightarrow> request" where
  "jobRequest headers input docId listId =
     \<lparr>req_url = baseUrl @ ''jobs'',
      req_method = ''POST'',
      req_headers = spread_with headers ''Content-Type'' ''application/x-www-form-urlencoded'',
      req_body = Some (TextBody (URLSearchParams_toString (jobFormData input docId listId)))\<rparr>"

text \<open>Step 4: the submission.\<close>

definition submitRequest :: "(string \<times> string) list \<Rightarrow> json option \<Rightarrow> request" where
  "submitRequest headers jobId =
     \<lparr>req_url = baseUrl @ ''jobs/'' @ js_to_string jobId @ ''/submit'',
      req_method = ''POST'',
      req_headers = spread_with headers ''Content-Type'' ''application/x-www-form-urlencoded'',
      req_body = Some (TextBody (URLSearchParams_toString [(''billingType'', ''User Credit'')]))\<rparr>"

definition send_letter :: "MyMCP \<Rightarrow> network \<Rightarrow> letter_input \<Rightarrow> content io" where
  "send_letter agent net input =
     (if \<not> str_truthy (c2mAuthHeaderValue agent) then
        io_return (text_item ''Click2mail basic auth credentials are not available.'')
      else
        case getClick2mailBasicAuthHeader (c2mAuthHeaderValue agent) of
          Inl e \<Rightarrow> io_throw e
        | Inr headers \<Rightarrow>
            io_catch
              (io_bind (fetch net (docRequest headers input))
                 (\<lambda>docResponse.
                    if \<not> resp_ok docResponse then
                      io_bind (io_of (resp_text docResponse))
                        (\<lambda>errorBody.
                           io_throw (''Document upload failed: '' @ http_error docResponse errorBody))
                    else
                      io_bind (io_of (resp_json docResponse))
                        (\<lambda>docData.
                           let docId = opt_get (Some docData) ''id''
                           in if \<not> truthy docId then
                                io_return (text_item ''Failed to get document ID after upload response.'')
                              else
           io_bind (fetch net (addressListRequest headers input))
             (\<lambda>addressListResponse.
                if \<not> resp_ok addressListResponse then
                  io_bind (io_of (resp_text addressListResponse))
                    (\<lambda>errorBody.
                       io_throw (''Address list creation failed: ''
                                 @ http_error addressListResponse errorBody))
                else
                  io_bind (io_of (resp_json addressListResponse))
                    (\<lambda>addressListData.
                       let listId = opt_get (Some addressListData) ''id''
                       in if \<not> truthy listId then
                            io_return (text_item ''Failed to get address list ID after creation.'')
                          else
           io_bind (fetch net (jobRequest headers input docId listId))
             (\<lambda>jobResponse.
                if \<not> resp_ok jobResponse then
                  io_bind (io_of (resp_text jobResponse))
                    (\<lambda>errorBody.
                       io_throw (''Job creation failed: '' @ http_error jobResponse errorBody))
                else
                  io_bind (io_of (resp_json jobResponse))
                    (\<lambda>jobData.
                       let jobId = opt_get (Some jobData) ''id''
                       in if \<not> truthy jobId then
                            io_return (text_item ''Failed to get job ID after creation.'')
                          else
           io_bind (fetch net (submitRequest headers jobId))
             (\<lambda>submitResponse.
                if \<not> resp_ok submitResponse then
                  io_bind (io_of (resp_text submitResponse))
                    (\<lambda>errorBody.
                       io_throw (''Job submission failed: '' @ http_error submitResponse errorBody))
                else
                  io_bind (io_of (resp_text submitResponse))
                    (\<lambda>logged.
                       io_return (text_item (''Letter ('' @ letter_type input
                                             @ '') sent. Your job id is '' @ js_to_string jobId)))))))))))
              (\<lambda>msg. io_return (text_item (''Error sending letter: '' @ msg))))"

section \<open>Reading the address list back\<close>

text \<open>
  A reader for the part of XML the address list is written in: the declaration of the
  template, elements without attributes, and character data. It answers \<open>None\<close> for a
  text that is not well-formed, and also for every construct outside that part:
  references (any \<open>&\<close>), comments, CDATA sections, processing instructions, attributes,
  empty-element tags, and characters other than printable ASCII, tab and line feed. So
  whatever it reads, an XML parser reads the same; where it answers \<open>None\<close> the text is
  either not well-formed or beyond this reader.

  The scanner cuts the text into tags and the character data between them (empty
  between two adjacent tags); the builder nests the tags; the document is one element,
  with nothing but white space around it.
\<close>

datatype xml = Elem string "xml list" | Chars string

datatype token = TDecl | TOpen string | TClose string | TChars string

datatype scan_mode = InChars string | InTag string

definition xml_char :: "char \<Rightarrow> bool" where
  "xml_char c = (c = CHR 0x09 \<or> c = CHR 0x0A \<or> (32 \<le> (of_char c :: nat) \<and> (of_char c :: nat) < 127))"

definition xml_name :: "string \<Rightarrow> bool" where
  "xml_name n =
     (case n of
        [] \<Rightarrow> False
      | c # cs \<Rightarrow>
          c \<in> set ''ABCDEFGHIJKLMNOPQRSTUVWXYZabcdefghijklmnopqrstuvwxyz''
          \<and> list_all (\<lambda>x. x \<in> set ''0123456789ABCDEFGHIJKLMNOPQRSTUVWXYZabcdefghijklmnopqrstuvwxyz'') cs)"

definition xml_declaration :: string where
  \<open>xml_declaration = ''?xml version="1.0" encoding="UTF-8"?''\<close>

definition tag_token :: "string \<Rightarrow> token option" where
  "tag_token t =
     (if t = xml_declaration then Some TDecl
      else case t of
             CHR ''/'' # n \<Rightarrow> if xml_name n then Some (TClose n) else None
           | _ \<Rightarrow> if xml_name t then Some (TOpen t) else None)"

text \<open>
  The scanner keeps what it has read of the current tag or character data, last
  character first. Character data may hold neither \<open><\<close> nor \<open>&\<close>, and no \<open>]]>\<close>.
\<close>

fun scan :: "scan_mode \<Rightarrow> string \<Rightarrow> token list option" where
  "scan (InChars acc) [] = Some [TChars (rev acc)]"
| "scan (InTag acc) [] = None"
| "scan (InChars acc) (c # cs) =
     (if c = CHR ''<'' then map_option ((#) (TChars (rev acc))) (scan (InTag []) cs)
      else if c = CHR ''&'' then None
      else if xml_char c then
        (if c = CHR ''>'' \<and> take 2 acc = '']]'' then None else scan (InChars (c # acc)) cs)
      else None)"
| "scan (InTag acc) (c # cs) =
     (if c = CHR ''>'' then
        (case tag_token (rev acc) of
           None \<Rightarrow> None
         | Some t \<Rightarrow> map_option ((#) t) (scan (InChars []) cs))
      else if c = CHR ''<'' then None
      else scan (InTag (c # acc)) cs)"

text \<open>
  The builder holds the open elements, innermost first, each with the children read
  before it was opened, and the children of the current element, last child first.
\<close>

fun build :: "(string \<times> xml list) list \<Rightarrow> xml list \<Rightarrow> token list \<Rightarrow> xml list option" where
  "build stack cur [] = (if stack = [] then Some (rev cur) else None)"
| "build stack cur (TDecl # ts) = None"
| "build stack cur (TChars s # ts) = build stack (Chars s # cur) ts"
| "build stack cur (TOpen n # ts) = build ((n, cur) # stack) [] ts"
| "build stack cur (TClose n # ts) =
     (case stack of
        [] \<Rightarrow> None
      | (m, outer) # rest \<Rightarrow>
          if m = n then build rest (Elem n (rev cur) # outer) ts else None)"

fun blank :: "xml \<Rightarrow> bool" where
  "blank (Chars s) = list_all (\<lambda>c. c \<in> set [CHR '' '', CHR 0x09, CHR 0x0A]) s"
| "blank (Elem n kids) = False"

definition read_xml :: "string \<Rightarrow> xml option" where
  "read_xml s =
     (case scan (InChars []) s of
        None \<Rightarrow> None
      | Some ts \<Rightarrow>
          (case build [] [] (case ts of TChars [] # TDecl # body \<Rightarrow> body | _ \<Rightarrow> ts) of
             None \<Rightarrow> None
           | Some forest \<Rightarrow>
               (case filter (\<lambda>x. \<not> blank x) forest of
                  [Elem n kids] \<Rightarrow> Some (Elem n kids)
                | _ \<Rightarrow> None)))"




section \<open>Example runs\<close>

text \<open>
  Concrete agents, inputs and networks on which the theorems below are exercised. A
  scripted network answers the n-th request with the n-th response of its script.
\<close>

definition scripted :: "fetch_outcome list \<Rightarrow> network" where
  "scripted script log req =
     (if length log < length script then script ! length log else Rejected ''fetch failed'')"

definition ok_json :: "string \<Rightarrow> json \<Rightarrow> fetch_outcome" where
  "ok_json text j = Resolved \<lparr>resp_status = 200, resp_text = Inr text, resp_json = Inr j\<rparr>"

definition demo_agent :: MyMCP where
  "demo_agent =
     \<lparr>env = \<lparr>GOOGLE_API_KEY = Some ''g-key'', EASYPOST_API_KEY = Some ''ep-key'',
             EASYPOST_CARRIER_ACCOUNT_ID = None\<rparr>,
      c2mAuthHeaderValue = Some ''dXNlcjpwdw==''\<rparr>"

definition bare_agent :: MyMCP where
  "bare_agent =
     \<lparr>env = \<lparr>GOOGLE_API_KEY = None, EASYPOST_API_KEY = None, EASYPOST_CARRIER_ACCOUNT_ID = None\<rparr>,
      c2mAuthHeaderValue = None\<rparr>"

definition demo_parseFloat :: "string \<Rightarrow> json" where
  "demo_parseFloat s = (if s = ''10'' then JNum 10 else JNull)"

definition demo_label_input :: label_input where
  "demo_label_input =
     \<lparr>to_address_name = ''Ann'', to_address_street1 = ''1 Main St'', to_address_city = ''Springfield'',
      to_address_state = ''IL'', to_address_zip = ''62701'', to_address_country = ''US'',
      from_address_name = ''Bob'', from_address_street1 = ''2 Oak Ave'', from_address_city = ''Peoria'',
      from_address_state = ''IL'', from_address_zip = ''61602'', from_address_country = ''US'',
      parcel_weight = ''10''\<rparr>"

definition demo_job :: job_input where
  "demo_job = \<lparr>jobid = ''303''\<rparr>"

definition demo_validate_input :: validate_input where
  "demo_validate_input =
     \<lparr>v_address_lines = ''1 Main St'', v_locality = ''Springfield'', v_postal_code = ''62701'',
      v_region_code = ''US''\<rparr>"

definition confirmed_body :: json where
  "confirmed_body =
     JObj [(''result'', JObj
        [(''verdict'', JObj [(''hasUnconfirmedComponents'', JBool False),
                             (''hasInferredComponents'', JBool False)]),
         (''address'', JObj [(''formattedAddress'', JStr ''1 Main St, Springfield, IL 62701'')]),
         (''validationMessages'', JArr [JObj [(''text'', JStr ''confirmed'')]])])]"

definition empty_url_body :: json where
  "empty_url_body = JObj [(''postage_label'', JObj [(''label_url'', JStr [])])]"

definition label_body :: json where
  "label_body = JObj [(''postage_label'', JObj [(''label_url'', JStr ''https://x/y.pdf'')])]"

definition demo_letter :: letter_input where
  "demo_letter =
     \<lparr>pdf_file = ''letter.pdf'', letter_type = ''Letter 8.5 x 11'', name = ''Ann'',
      address_lines = ''1 Main St'', locality = ''Springfield'', postal_code = ''62701'',
      region_code = ''IL''\<rparr>"


definition ampersand_letter :: letter_input where
  "ampersand_letter =
     \<lparr>pdf_file = ''letter.pdf'', letter_type = ''Letter 8.5 x 11'', name = ''AT&T'',
      address_lines = ''1 Main St'', locality = ''Springfield'', postal_code = ''62701'',
      region_code = ''IL''\<rparr>"

definition zero_balance :: fetch_outcome where
  \<open>zero_balance = ok_json ''{"balance":0}'' (JObj [(''balance'', JNum 0)])\<close>

definition null_balance :: fetch_outcome where
  \<open>null_balance = ok_json ''{"balance":null}'' (JObj [(''balance'', JNull)])\<close>

definition no_description :: fetch_outcome where
  \<open>no_description = ok_json ''{"id":303}'' (JObj [(''id'', JNum 303)])\<close>

definition upload_refused :: fetch_outcome where
  "upload_refused =
     Resolved \<lparr>resp_status = 500, resp_text = Inr ''upload refused'', resp_json = Inl ''Unexpected token''\<rparr>"

definition letter_script :: "fetch_outcome list" where
  \<open>letter_script =
     [ok_json ''{"id":101}'' (JObj [(''id'', JNum 101)]),
      ok_json ''{"id":202}'' (JObj [(''id'', JNum 202)]),
      ok_json ''{"id":303}'' (JObj [(''id'', JNum 303)]),
      ok_json ''null'' JNull]\<close>

section \<open>Evaluation rules\<close>

lemmas io_defs = io_return_def io_throw_def io_bind_def io_catch_def io_of_def fetch_def

lemma resp_ok_200 [simp]:
  "resp_ok \<lparr>resp_status = 200, resp_text = t, resp_json = j\<rparr>"
  by (simp add: resp_ok_def)

lemma show_int_examples:
  "show_int 0 = ''0''" "show_int 101 = ''101''" "show_int 202 = ''202''" "show_int 303 = ''303''"
  by code_simp+

lemma show_nat_500: "show_nat 500 = ''500''"
  by code_simp

section \<open>Missing credentials\<close>

text \<open>
  The four Click2mail tools and the address validation guard their credential first:
  without it they return the configuration text and leave the log of requests as it was.
\<close>

lemma guarded_tools_config_error:
  assumes "\<not> str_truthy (c2mAuthHeaderValue agent)"
  shows "view_proof agent net j log
           = (Inr (text_item ''Click2mail basic auth credentials are not available.''), log)"
    and "job_status agent net j log
           = (Inr (text_item ''Click2mail basic auth credentials are not available.''), log)"
    and "check_balance agent net log
           = (Inr (text_item ''Click2mail basic auth credentials are not available.''), log)"
    and "send_letter agent net l log
           = (Inr (text_item ''Click2mail basic auth credentials are not available.''), log)"
  using assms
  by (simp_all add: view_proof_def job_status_def check_balance_def send_letter_def io_return_def)

lemma validate_address_config_error:
  assumes "\<not> str_truthy (GOOGLE_API_KEY (env agent))"
  shows "validate_address agent net v log
           = (Inr (text_item ''Google API Key for address validation is not configured.''), log)"
  using assms
  by (cases "GOOGLE_API_KEY (env agent)") (simp_all add: validate_address_def io_return_def)

text \<open>
  Claim C1. Every tool called without its credential returns a configuration-error text,
  throws nothing and issues no request. The shipping-label handler does not: it calls
  the header builder before its \<open>try\<close> block, so without the EasyPost key the handler
  throws the builder's error. No request is issued, but where the five other tools return
  a text the caller of this one gets a fault.
\<close>

theorem create_shipping_label_missing_key_throws:
  "\<not> str_truthy (EASYPOST_API_KEY (env agent)) \<Longrightarrow>
     create_shipping_label parseFloat agent net input log
       = (Inl ''Missing EasyPost API key in environment'', log)"
  by (cases "EASYPOST_API_KEY (env agent)")
     (simp_all add: create_shipping_label_def getEasyPostAuthHeader_def io_throw_def)

text \<open>The agent with nothing configured, on the example label input.\<close>

theorem create_shipping_label_missing_key_throws_witness:
  "\<not> str_truthy (EASYPOST_API_KEY (env bare_agent))
   \<and> create_shipping_label demo_parseFloat bare_agent (scripted []) demo_label_input []
       = (Inl ''Missing EasyPost API key in environment'', [])"
proof -
  have h: "\<not> str_truthy (EASYPOST_API_KEY (env bare_agent))"
    by (simp add: bare_agent_def)
  from create_shipping_label_missing_key_throws [OF h] h show ?thesis
    by simp
qed

section \<open>The validity flag\<close>

text \<open>
  Claim C2. When the validation response succeeds, the \<open>is_valid\<close> flag of the returned
  result is true exactly when the verdict holds \<open>hasUnconfirmedComponents\<close> equal to
  \<open>false\<close> and \<open>hasInferredComponents\<close> equal to \<open>false\<close>; a flag that is true or absent
  makes it false. A result is returned exactly when mapping the validation messages does
  not throw.
\<close>

theorem validate_address_is_valid:
  fixes data :: json
  defines "verdict \<equiv> opt_get (opt_get (Some data) ''result'') ''verdict''"
  assumes key: "GOOGLE_API_KEY (env agent) = Some key" "key \<noteq> []"
    and net: "net log (validate_request key input) = Resolved response"
    and ok: "resp_ok response" and js: "resp_json response = Inr data"
  shows "(\<forall>r. fst (validate_address agent net input log) = Inr (JsonContent r) \<longrightarrow>
            (is_valid r \<longleftrightarrow>
               opt_get verdict ''hasUnconfirmedComponents'' = Some (JBool False)
               \<and> opt_get verdict ''hasInferredComponents'' = Some (JBool False)))
       \<and> (\<forall>r. fst (validate_address agent net input log) = Inr (JsonContent r)
              \<and> (opt_get verdict ''hasUnconfirmedComponents'' \<in> {None, Some (JBool True)}
                 \<or> opt_get verdict ''hasInferredComponents'' \<in> {None, Some (JBool True)}) \<longrightarrow>
            \<not> is_valid r)
       \<and> ((\<exists>r. fst (validate_address agent net input log) = Inr (JsonContent r)) \<longleftrightarrow>
            (\<exists>msgs. validation_messages
                       (opt_get (opt_get (Some data) ''result'') ''validationMessages'') = Inr msgs))"
  using key net ok js unfolding verdict_def
  by (auto simp: validate_address_def io_defs Let_def text_item_def split: sum.splits)

text \<open>A response whose verdict confirms every component.\<close>

theorem validate_address_is_valid_witness:
  "\<exists>r. fst (validate_address demo_agent (scripted [ok_json ''{}'' confirmed_body])
               demo_validate_input []) = Inr (JsonContent r)
       \<and> is_valid r"
proof -
  let ?net = "scripted [ok_json ''{}'' confirmed_body]"
  let ?resp = "\<lparr>resp_status = 200, resp_text = Inr ''{}'', resp_json = Inr confirmed_body\<rparr>"
  have k: "GOOGLE_API_KEY (env demo_agent) = Some ''g-key''" "''g-key'' \<noteq> []"
    by (simp_all add: demo_agent_def)
  have n: "?net [] (validate_request ''g-key'' demo_validate_input) = Resolved ?resp"
    by (simp add: scripted_def ok_json_def)
  have o: "resp_ok ?resp" by simp
  have j: "resp_json ?resp = Inr confirmed_body" by simp
  note t = validate_address_is_valid [where net = "?net" and log = "[]", OF k n o j]
  have "\<exists>msgs. validation_messages
           (opt_get (opt_get (Some confirmed_body) ''result'') ''validationMessages'') = Inr msgs"
    by (simp add: confirmed_body_def)
  with t obtain r where
    r: "fst (validate_address demo_agent ?net demo_validate_input []) = Inr (JsonContent r)"
    by blast
  with t have "is_valid r \<longleftrightarrow>
      opt_get (opt_get (opt_get (Some confirmed_body) ''result'') ''verdict'')
        ''hasUnconfirmedComponents'' = Some (JBool False)
      \<and> opt_get (opt_get (opt_get (Some confirmed_body) ''result'') ''verdict'')
        ''hasInferredComponents'' = Some (JBool False)"
    by blast
  then have "is_valid r" by (simp add: confirmed_body_def)
  with r show ?thesis by blast
qed

section \<open>Balance, job status and shipping label\<close>

text \<open>
  Claim C5. When the balance response succeeds, a balance of 0 is reported as
  \<open>Available balance: 0\<close>; the tool answers with the not-found message only when the
  body has no balance field at all.
\<close>

theorem check_balance_zero_reported:
  assumes cred: "c2mAuthHeaderValue agent = Some cred" "cred \<noteq> []"
    and net: "net log (creditRequest (click2mail_headers cred)) = Resolved response"
    and ok: "resp_ok response" and js: "resp_json response = Inr data"
  shows "(opt_get (Some data) ''balance'' = Some (JNum 0) \<longrightarrow>
            fst (check_balance agent net log) = Inr (text_item ''Available balance: 0''))
       \<and> (fst (check_balance agent net log)
              = Inr (text_item ''Balance information not found in response.'')
            \<longleftrightarrow> opt_get (Some data) ''balance'' = None)"
  using assms
  by (auto simp: check_balance_def getClick2mailBasicAuthHeader_def io_defs Let_def text_item_def
                 show_int_examples)

text \<open>The body \<open>{ balance: 0 }\<close>.\<close>

theorem check_balance_zero_reported_witness:
  "fst (check_balance demo_agent (scripted [zero_balance]) [])
     = Inr (text_item ''Available balance: 0'')
   \<and> fst (check_balance demo_agent (scripted [zero_balance]) [])
     \<noteq> Inr (text_item ''Balance information not found in response.'')"
proof -
  let ?net = "scripted [zero_balance]"
  let ?data = "JObj [(''balance'', JNum 0)]"
  have c: "c2mAuthHeaderValue demo_agent = Some ''dXNlcjpwdw==''" "''dXNlcjpwdw=='' \<noteq> []"
    by (simp_all add: demo_agent_def)
  obtain resp where
    n: "?net [] (creditRequest (click2mail_headers ''dXNlcjpwdw=='')) = Resolved resp"
    and o: "resp_ok resp" and j: "resp_json resp = Inr ?data"
    by (simp add: scripted_def zero_balance_def ok_json_def)
  from check_balance_zero_reported [where net = "?net" and log = "[]", OF c n o j]
  show ?thesis by (simp add: text_item_def)
qed

text \<open>
  Claim C10. When the balance response succeeds with a body whose balance is \<open>null\<close>,
  the tool reports \<open>Available balance: null\<close>, not the not-found message.
\<close>

theorem check_balance_null_reported:
  assumes cred: "c2mAuthHeaderValue agent = Some cred" "cred \<noteq> []"
    and net: "net log (creditRequest (click2mail_headers cred)) = Resolved response"
    and ok: "resp_ok response" and js: "resp_json response = Inr data"
    and null: "opt_get (Some data) ''balance'' = Some JNull"
  shows "fst (check_balance agent net log) = Inr (text_item ''Available balance: null'')
       \<and> fst (check_balance agent net log)
           \<noteq> Inr (text_item ''Balance information not found in response.'')"
  using assms
  by (simp add: check_balance_def getClick2mailBasicAuthHeader_def io_defs Let_def text_item_def)

text \<open>The body \<open>{ balance: null }\<close>.\<close>

theorem check_balance_null_reported_witness:
  "fst (check_balance demo_agent (scripted [null_balance]) [])
     = Inr (text_item ''Available balance: null'')"
proof -
  let ?net = "scripted [null_balance]"
  let ?data = "JObj [(''balance'', JNull)]"
  have c: "c2mAuthHeaderValue demo_agent = Some ''dXNlcjpwdw==''" "''dXNlcjpwdw=='' \<noteq> []"
    by (simp_all add: demo_agent_def)
  obtain resp where
    n: "?net [] (creditRequest (click2mail_headers ''dXNlcjpwdw=='')) = Resolved resp"
    and o: "resp_ok resp" and j: "resp_json resp = Inr ?data"
    by (simp add: scripted_def null_balance_def ok_json_def)
  have b: "opt_get (Some ?data) ''balance'' = Some JNull" by simp
  from check_balance_null_reported [where net = "?net" and log = "[]", OF c n o j b]
  show ?thesis by simp
qed

text \<open>
  Claim C7. When the job-status response succeeds and its body has no description
  field, the tool returns the fixed not-found message; whatever the body, the text it
  returns is never undefined and never empty.
\<close>

theorem job_status_missing_description:
  assumes cred: "c2mAuthHeaderValue agent = Some cred" "cred \<noteq> []"
    and net: "net log (statusRequest (click2mail_headers cred) input) = Resolved response"
    and ok: "resp_ok response" and js: "resp_json response = Inr data"
  shows "(opt_get (Some data) ''description'' = None \<longrightarrow>
            fst (job_status agent net input log)
              = Inr (text_item ''Job description not found in response.''))
       \<and> (\<exists>v. fst (job_status agent net input log) = Inr (TextContent (Some v))
              \<and> v \<noteq> JStr [] \<and> truthy (Some v))"
proof -
  let ?d = "opt_get (Some data) ''description''"
  have out: "fst (job_status agent net input log)
               = (if truthy ?d then Inr (TextContent ?d)
                  else Inr (text_item ''Job description not found in response.''))"
    using assms
    by (simp add: job_status_def getClick2mailBasicAuthHeader_def io_defs Let_def)
  have "\<exists>v. fst (job_status agent net input log) = Inr (TextContent (Some v))
              \<and> v \<noteq> JStr [] \<and> truthy (Some v)"
  proof (cases "truthy ?d")
    case True
    then obtain v where v: "?d = Some v" by (cases ?d) auto
    with True have "v \<noteq> JStr []" by auto
    with v True out show ?thesis by auto
  next
    case False
    with out show ?thesis by (auto simp: text_item_def)
  qed
  with out show ?thesis by simp
qed

text \<open>A successful response that carries no description.\<close>

theorem job_status_missing_description_witness:
  "fst (job_status demo_agent (scripted [no_description]) demo_job [])
     = Inr (text_item ''Job description not found in response.'')"
proof -
  let ?net = "scripted [no_description]"
  let ?data = "JObj [(''id'', JNum 303)]"
  have c: "c2mAuthHeaderValue demo_agent = Some ''dXNlcjpwdw==''" "''dXNlcjpwdw=='' \<noteq> []"
    by (simp_all add: demo_agent_def)
  obtain resp where
    n: "?net [] (statusRequest (click2mail_headers ''dXNlcjpwdw=='') demo_job) = Resolved resp"
    and o: "resp_ok resp" and j: "resp_json resp = Inr ?data"
    by (simp add: scripted_def no_description_def ok_json_def)
  from job_status_missing_description [where net = "?net" and log = "[]", OF c n o j]
  show ?thesis by simp
qed

text \<open>
  Claim C6, as stated: whenever the successful label response contains
  \<open>postage_label.label_url\<close>, the text returned is exactly that value. The handler tests
  the value for truthiness, so a field that is present but empty is answered with the
  not-found message.
\<close>

theorem create_shipping_label_empty_url_counterexample:
  "opt_get (opt_get (Some empty_url_body) ''postage_label'') ''label_url'' = Some (JStr [])
   \<and> fst (create_shipping_label demo_parseFloat demo_agent
            (scripted [ok_json ''{}'' empty_url_body]) demo_label_input [])
       = Inr (text_item ''Label URL not found in response.'')
   \<and> fst (create_shipping_label demo_parseFloat demo_agent
            (scripted [ok_json ''{}'' empty_url_body]) demo_label_input [])
       \<noteq> Inr (TextContent (Some (JStr [])))"
  by (simp add: create_shipping_label_def getEasyPostAuthHeader_def io_defs Let_def
                demo_agent_def scripted_def ok_json_def empty_url_body_def text_item_def)

text \<open>
  Claim C6, amended: when the successful label response holds a truthy
  \<open>postage_label.label_url\<close> (any non-empty string is one), the text returned is exactly
  that value; when the field is absent or falsy, the tool returns the not-found message.
  A request that fails in transport is answered with a different text, which starts
  \<open>Error creating shipping label:\<close>.
\<close>

theorem create_shipping_label_url:
  assumes key: "EASYPOST_API_KEY (env agent) = Some key" "key \<noteq> []"
    and req: "req = shipmentRequest (easypost_headers key)
                      (shipment_payload parseFloat (env agent) input)"
  shows "(\<forall>response data labelUrl.
            net log req = Resolved response \<and> resp_ok response \<and> resp_json response = Inr data
            \<and> labelUrl = opt_get (opt_get (Some data) ''postage_label'') ''label_url'' \<longrightarrow>
              fst (create_shipping_label parseFloat agent net input log)
                = (if truthy labelUrl then Inr (TextContent labelUrl)
                   else Inr (text_item ''Label URL not found in response.'')))
       \<and> (\<forall>response data u.
            net log req = Resolved response \<and> resp_ok response \<and> resp_json response = Inr data
            \<and> opt_get (opt_get (Some data) ''postage_label'') ''label_url'' = Some (JStr u)
            \<and> u \<noteq> [] \<longrightarrow>
              fst (create_shipping_label parseFloat agent net input log) = Inr (text_item u))
       \<and> (\<forall>e. net log req = Rejected e \<longrightarrow>
              fst (create_shipping_label parseFloat agent net input log)
                = Inr (text_item (''Error creating shipping label: '' @ e)))"
  using key unfolding req
  by (auto simp: create_shipping_label_def getEasyPostAuthHeader_def io_defs Let_def text_item_def)

text \<open>The round trip of \<open>https://x/y.pdf\<close>.\<close>

theorem create_shipping_label_url_witness:
  "fst (create_shipping_label demo_parseFloat demo_agent
          (scripted [ok_json ''{}'' label_body]) demo_label_input [])
     = Inr (text_item ''https://x/y.pdf'')"
proof -
  let ?net = "scripted [ok_json ''{}'' label_body]"
  let ?req = "shipmentRequest (easypost_headers ''ep-key'')
                (shipment_payload demo_parseFloat (env demo_agent) demo_label_input)"
  have k: "EASYPOST_API_KEY (env demo_agent) = Some ''ep-key''" "''ep-key'' \<noteq> []"
    by (simp_all add: demo_agent_def)
  obtain resp where
    n: "?net [] ?req = Resolved resp"
    and o: "resp_ok resp" and j: "resp_json resp = Inr label_body"
    by (simp add: scripted_def ok_json_def)
  have u: "opt_get (opt_get (Some label_body) ''postage_label'') ''label_url''
             = Some (JStr ''https://x/y.pdf'')"
    by (simp add: label_body_def)
  from create_shipping_label_url [where net = "?net" and log = "[]" and req = "?req", OF k refl]
  have "\<forall>response data u.
            ?net [] ?req = Resolved response \<and> resp_ok response \<and> resp_json response = Inr data
            \<and> opt_get (opt_get (Some data) ''postage_label'') ''label_url'' = Some (JStr u)
            \<and> u \<noteq> [] \<longrightarrow>
              fst (create_shipping_label demo_parseFloat demo_agent ?net demo_label_input [])
                = Inr (text_item u)"
    by blast
  with n o j u show ?thesis by blast
qed

section \<open>Properties of the letter pipeline\<close>

text \<open>
  Claim C3. When step 1 of the pipeline fails (the upload is rejected in transport, its
  status is not a success, its body does not decode, or the decoded body has no usable
  id), the upload is the only request the run issues, so steps 2 to 4 never execute, and
  the tool returns one text that says what failed.
\<close>

theorem send_letter_upload_failure_stops:
  assumes cred: "c2mAuthHeaderValue agent = Some cred" "cred \<noteq> []"
    and fail: "(\<exists>e. net log (docRequest (click2mail_headers cred) input) = Rejected e)
             \<or> (\<exists>r. net log (docRequest (click2mail_headers cred) input) = Resolved r
                   \<and> (\<not> resp_ok r
                        \<or> (\<exists>e. resp_json r = Inl e)
                        \<or> (\<exists>d. resp_json r = Inr d \<and> \<not> truthy (opt_get (Some d) ''id''))))"
  shows "snd (send_letter agent net input log) = log @ [docRequest (click2mail_headers cred) input]
       \<and> (\<exists>msg. msg \<noteq> [] \<and> fst (send_letter agent net input log) = Inr (text_item msg))
       \<and> (\<forall>r b. net log (docRequest (click2mail_headers cred) input) = Resolved r
                 \<and> \<not> resp_ok r \<and> resp_text r = Inr b \<longrightarrow>
              fst (send_letter agent net input log)
                = Inr (text_item (''Error sending letter: Document upload failed: HTTP error! status: ''
                                  @ show_nat (resp_status r) @ '', body: '' @ b)))
       \<and> (\<forall>r d. net log (docRequest (click2mail_headers cred) input) = Resolved r
                 \<and> resp_ok r \<and> resp_json r = Inr d \<and> \<not> truthy (opt_get (Some d) ''id'') \<longrightarrow>
              fst (send_letter agent net input log)
                = Inr (text_item ''Failed to get document ID after upload response.''))"
  using assms
  by (auto simp: send_letter_def getClick2mailBasicAuthHeader_def io_defs Let_def text_item_def
                 http_error_def
           split: sum.splits)

text \<open>An upload answered with status 500.\<close>

theorem send_letter_upload_failure_stops_witness:
  "snd (send_letter demo_agent (scripted [upload_refused]) demo_letter [])
     = [docRequest (click2mail_headers ''dXNlcjpwdw=='') demo_letter]
   \<and> fst (send_letter demo_agent (scripted [upload_refused]) demo_letter [])
     = Inr (text_item
         ''Error sending letter: Document upload failed: HTTP error! status: 500, body: upload refused'')"
proof -
  let ?net = "scripted [upload_refused]"
  let ?req = "docRequest (click2mail_headers ''dXNlcjpwdw=='') demo_letter"
  let ?resp = "\<lparr>resp_status = 500, resp_text = Inr ''upload refused'',
                 resp_json = Inl ''Unexpected token''\<rparr>"
  have c: "c2mAuthHeaderValue demo_agent = Some ''dXNlcjpwdw==''" "''dXNlcjpwdw=='' \<noteq> []"
    by (simp_all add: demo_agent_def)
  have n: "?net [] ?req = Resolved ?resp"
    by (simp add: scripted_def upload_refused_def)
  have o: "\<not> resp_ok ?resp" by (simp add: resp_ok_def)
  have t: "resp_text ?resp = Inr ''upload refused''" by simp
  have f: "(\<exists>e. ?net [] ?req = Rejected e)
         \<or> (\<exists>r. ?net [] ?req = Resolved r
               \<and> (\<not> resp_ok r
                    \<or> (\<exists>e. resp_json r = Inl e)
                    \<or> (\<exists>d. resp_json r = Inr d \<and> \<not> truthy (opt_get (Some d) ''id''))))"
    using n o by blast
  note th = send_letter_upload_failure_stops [where net = "?net" and log = "[]", OF c f]
  from th have l: "snd (send_letter demo_agent ?net demo_letter []) = [?req]"
    by simp
  from th n o t have
    "fst (send_letter demo_agent ?net demo_letter [])
       = Inr (text_item (''Error sending letter: Document upload failed: HTTP error! status: ''
                         @ show_nat (resp_status ?resp) @ '', body: '' @ ''upload refused''))"
    by blast
  with l show ?thesis by (simp add: show_nat_500)
qed

text \<open>
  Claim C4. When all four steps succeed, the tool returns the confirmation text, which
  holds the letter format the caller supplied and the job id read from the response of
  step 3; the run has issued the four requests in order.
\<close>

theorem send_letter_success_confirmation:
  assumes cred: "c2mAuthHeaderValue agent = Some cred" "cred \<noteq> []"
    and hd: "headers = click2mail_headers cred"
    and s1: "net log (docRequest headers input) = Resolved r1"
            "resp_ok r1" "resp_json r1 = Inr d1" "truthy (opt_get (Some d1) ''id'')"
    and s2: "net (log @ [docRequest headers input]) (addressListRequest headers input) = Resolved r2"
            "resp_ok r2" "resp_json r2 = Inr d2" "truthy (opt_get (Some d2) ''id'')"
    and s3: "net (log @ [docRequest headers input, addressListRequest headers input])
                 (jobRequest headers input (opt_get (Some d1) ''id'') (opt_get (Some d2) ''id''))
               = Resolved r3"
            "resp_ok r3" "resp_json r3 = Inr d3" "truthy (opt_get (Some d3) ''id'')"
    and s4: "net (log @ [docRequest headers input, addressListRequest headers input,
                         jobRequest headers input (opt_get (Some d1) ''id'') (opt_get (Some d2) ''id'')])
                 (submitRequest headers (opt_get (Some d3) ''id''))
               = Resolved r4"
            "resp_ok r4" "resp_text r4 = Inr t4"
  shows "fst (send_letter agent net input log)
           = Inr (text_item (''Letter ('' @ letter_type input @ '') sent. Your job id is ''
                             @ js_to_string (opt_get (Some d3) ''id'')))
       \<and> snd (send_letter agent net input log)
           = log @ [docRequest headers input, addressListRequest headers input,
                    jobRequest headers input (opt_get (Some d1) ''id'') (opt_get (Some d2) ''id''),
                    submitRequest headers (opt_get (Some d3) ''id'')]"
  using assms
  by (simp add: send_letter_def getClick2mailBasicAuthHeader_def io_defs Let_def)

text \<open>The scripted run in which the vendor gives the ids 101, 202 and 303.\<close>

theorem send_letter_success_confirmation_witness:
  "fst (send_letter demo_agent (scripted letter_script) demo_letter [])
     = Inr (text_item ''Letter (Letter 8.5 x 11) sent. Your job id is 303'')"
proof -
  let ?net = "scripted letter_script"
  let ?h = "click2mail_headers ''dXNlcjpwdw==''"
  let ?d1 = "JObj [(''id'', JNum 101)]"
  let ?d2 = "JObj [(''id'', JNum 202)]"
  let ?d3 = "JObj [(''id'', JNum 303)]"
  have c: "c2mAuthHeaderValue demo_agent = Some ''dXNlcjpwdw==''" "''dXNlcjpwdw=='' \<noteq> []"
    by (simp_all add: demo_agent_def)
  obtain r1 where s1: "?net [] (docRequest ?h demo_letter) = Resolved r1"
      "resp_ok r1" "resp_json r1 = Inr ?d1" "truthy (opt_get (Some ?d1) ''id'')"
    by (simp add: scripted_def letter_script_def ok_json_def)
  obtain r2 where s2:
      "?net ([] @ [docRequest ?h demo_letter]) (addressListRequest ?h demo_letter) = Resolved r2"
      "resp_ok r2" "resp_json r2 = Inr ?d2" "truthy (opt_get (Some ?d2) ''id'')"
    by (simp add: scripted_def letter_script_def ok_json_def)
  obtain r3 where s3:
      "?net ([] @ [docRequest ?h demo_letter, addressListRequest ?h demo_letter])
            (jobRequest ?h demo_letter (opt_get (Some ?d1) ''id'') (opt_get (Some ?d2) ''id''))
         = Resolved r3"
      "resp_ok r3" "resp_json r3 = Inr ?d3" "truthy (opt_get (Some ?d3) ''id'')"
    by (simp add: scripted_def letter_script_def ok_json_def)
  obtain r4 where s4:
      "?net ([] @ [docRequest ?h demo_letter, addressListRequest ?h demo_letter,
                   jobRequest ?h demo_letter (opt_get (Some ?d1) ''id'') (opt_get (Some ?d2) ''id'')])
            (submitRequest ?h (opt_get (Some ?d3) ''id''))
         = Resolved r4"
      "resp_ok r4" "resp_text r4 = Inr ''null''"
    by (simp add: scripted_def letter_script_def ok_json_def)
  from send_letter_success_confirmation
         [where net = "?net" and log = "[]" and headers = "?h", OF c refl s1 s2 s3 s4]
  show ?thesis
    by (simp add: demo_letter_def show_int_examples)
qed

text \<open>
  Claim C8. In every run that reaches step 3, the third request is the job creation: a
  POST to the jobs endpoint, declared form-urlencoded, whose body is the serialised form
  of the letter format, the seven fixed production parameters, the document id of step 1
  and the address-list id of step 2. The seven parameters are constants of the handler:
  nothing in the input reaches them.
\<close>

theorem send_letter_job_payload:
  assumes cred: "c2mAuthHeaderValue agent = Some cred" "cred \<noteq> []"
    and hd: "headers = click2mail_headers cred"
    and s1: "net log (docRequest headers input) = Resolved r1"
            "resp_ok r1" "resp_json r1 = Inr d1" "truthy (opt_get (Some d1) ''id'')"
    and s2: "net (log @ [docRequest headers input]) (addressListRequest headers input) = Resolved r2"
            "resp_ok r2" "resp_json r2 = Inr d2" "truthy (opt_get (Some d2) ''id'')"
  shows "\<exists>job rest.
           snd (send_letter agent net input log)
             = log @ [docRequest headers input, addressListRequest headers input, job] @ rest
         \<and> req_url job = ''https://stage-rest.click2mail.com/molpro/jobs''
         \<and> req_method job = ''POST''
         \<and> map_of (req_headers job) ''Content-Type'' = Some ''application/x-www-form-urlencoded''
         \<and> req_body job = Some (TextBody (URLSearchParams_toString
              [(''documentClass'', letter_type input),
               (''layout'', ''Address on First Page''),
               (''productionTime'', ''Next Day''),
               (''envelope'', ''Best Fit''),
               (''color'', ''Full color''),
               (''paperType'', ''White 24#''),
               (''printOption'', ''Printing One side''),
               (''mailClass'', ''First class''),
               (''documentId'', js_to_string (opt_get (Some d1) ''id'')),
               (''addressId'', js_to_string (opt_get (Some d2) ''id''))]))"
proof -
  let ?job = "jobRequest headers input (opt_get (Some d1) ''id'') (opt_get (Some d2) ''id'')"
  have "\<exists>rest. snd (send_letter agent net input log)
             = log @ [docRequest headers input, addressListRequest headers input, ?job] @ rest"
    using assms
    by (auto simp: send_letter_def getClick2mailBasicAuthHeader_def io_defs Let_def
             split: sum.splits fetch_outcome.splits)
  moreover have "req_url ?job = ''https://stage-rest.click2mail.com/molpro/jobs''"
    by (simp add: jobRequest_def baseUrl_def)
  moreover have "req_method ?job = ''POST''"
    by (simp add: jobRequest_def)
  moreover have "map_of (req_headers ?job) ''Content-Type'' = Some ''application/x-www-form-urlencoded''"
    by (simp add: jobRequest_def hd click2mail_headers_def)
  moreover have "req_body ?job = Some (TextBody (URLSearchParams_toString
              [(''documentClass'', letter_type input),
               (''layout'', ''Address on First Page''),
               (''productionTime'', ''Next Day''),
               (''envelope'', ''Best Fit''),
               (''color'', ''Full color''),
               (''paperType'', ''White 24#''),
               (''printOption'', ''Printing One side''),
               (''mailClass'', ''First class''),
               (''documentId'', js_to_string (opt_get (Some d1) ''id'')),
               (''addressId'', js_to_string (opt_get (Some d2) ''id''))]))"
    by (simp add: jobRequest_def jobFormData_def)
  ultimately show ?thesis by blast
qed

text \<open>The body of the job creation in the scripted run, as it goes on the wire.\<close>

lemma job_body_example:
  "URLSearchParams_toString (jobFormData demo_letter (Some (JNum 101)) (Some (JNum 202)))
     = ''documentClass=Letter+8.5+x+11&layout=Address+on+First+Page&productionTime=Next+Day&envelope=Best+Fit&color=Full+color&paperType=White+24%23&printOption=Printing+One+side&mailClass=First+class&documentId=101&addressId=202''"
  by (simp add: URLSearchParams_toString_def jobFormData_def demo_letter_def urlencode_def
                urlencode_byte_def urlencoded_safe_def hex_digit_def show_int_examples)

theorem send_letter_job_payload_witness:
  "\<exists>job rest.
     snd (send_letter demo_agent (scripted letter_script) demo_letter [])
       = [docRequest (click2mail_headers ''dXNlcjpwdw=='') demo_letter,
          addressListRequest (click2mail_headers ''dXNlcjpwdw=='') demo_letter, job] @ rest
     \<and> req_body job = Some (TextBody (URLSearchParams_toString
          (jobFormData demo_letter (Some (JNum 101)) (Some (JNum 202)))))"
proof -
  let ?net = "scripted letter_script"
  let ?h = "click2mail_headers ''dXNlcjpwdw==''"
  let ?d1 = "JObj [(''id'', JNum 101)]"
  let ?d2 = "JObj [(''id'', JNum 202)]"
  have c: "c2mAuthHeaderValue demo_agent = Some ''dXNlcjpwdw==''" "''dXNlcjpwdw=='' \<noteq> []"
    by (simp_all add: demo_agent_def)
  obtain r1 where s1: "?net [] (docRequest ?h demo_letter) = Resolved r1"
      "resp_ok r1" "resp_json r1 = Inr ?d1" "truthy (opt_get (Some ?d1) ''id'')"
    by (simp add: scripted_def letter_script_def ok_json_def)
  obtain r2 where s2:
      "?net ([] @ [docRequest ?h demo_letter]) (addressListRequest ?h demo_letter) = Resolved r2"
      "resp_ok r2" "resp_json r2 = Inr ?d2" "truthy (opt_get (Some ?d2) ''id'')"
    by (simp add: scripted_def letter_script_def ok_json_def)
  from send_letter_job_payload
         [where net = "?net" and log = "[]" and headers = "?h", OF c refl s1 s2]
  show ?thesis
    by (simp add: jobFormData_def demo_letter_def, blast)
qed


text \<open>
  Markup is not the only thing the template lets through: a name with an ampersand
  gives a text that does not read back at all.
\<close>

lemma xmlPayload_ampersand_unread:
  "read_xml (xmlPayload ampersand_letter) = None"
  by (simp add: read_xml_def xmlPayload_def ampersand_letter_def nl_def tag_token_def
                xml_declaration_def xml_name_def xml_char_def)






end
